theory Spec2Isabelle
  imports Main "HOL-Library.Word"
begin

section \<open>Values shared by the three subscriptions\<close>

type_synonym bytes = "8 word list"

text \<open>
  Go's \<open>uint32\<close> and \<open>int32\<close> are both 32-bit words; \<open>uint\<close> reads the unsigned
  value and \<open>sint\<close> the two's complement value.
\<close>

type_synonym uint32 = "32 word"
type_synonym int32 = "32 word"

text \<open>
  The conversions \<open>uint32(x)\<close> and \<open>int32(x)\<close> of Go: the operand's value,
  sign-extended for a signed operand, is truncated to the 32 bits of the result.
\<close>

definition uint32_of_int32 :: "int32 \<Rightarrow> uint32" where
  "uint32_of_int32 x = word_of_int (sint x)"

definition int32_of_uint32 :: "uint32 \<Rightarrow> int32" where
  "int32_of_uint32 x = word_of_int (uint x)"

text \<open>
  Error values. \<open>Errorf\<close> is \<open>fmt.Errorf\<close> with its message, \<open>HashLenError\<close> is the
  error of \<open>chainhash.NewHash\<close>, and \<open>ExternalError\<close> is any error handed over by a
  collaborator (stream establishment, \<open>Recv\<close>, \<open>decodeTx\<close>).
\<close>

datatype error = Errorf string | HashLenError nat | ExternalError string

text \<open>
  Modelled from the spec: \<open>chainhash.NewHash\<close> belongs to the btcd library and is not
  part of the sources. It accepts exactly the byte strings of length 32.
\<close>

definition NewHash :: "bytes \<Rightarrow> error + bytes" where
  "NewHash newHash = (if length newHash = 32 then Inr newHash else Inl (HashLenError (length newHash)))"

text \<open>
  An expression that dereferences a nil pointer panics instead of yielding a value.
\<close>

datatype 'a eval = Panic | Value 'a

section \<open>Workers\<close>

text \<open>
  The observable state of one worker goroutine: the messages it has written to its output
  channel and to its error channel (oldest first), the number of completed \<open>Recv\<close> calls,
  and where its control is. \<open>Running\<close> is inside the \<open>for\<close> loop (waiting in \<open>Recv\<close> when the
  stream has delivered nothing more), \<open>Blocked\<close> is stuck in a channel operation that
  cannot proceed, \<open>Returned\<close> is after a \<open>return\<close>, \<open>Panicked\<close> is after a nil dereference.
\<close>

datatype status = Running | Blocked | Returned | Panicked

record 'o worker =
  outChan :: "'o list"
  errChan :: "error list"
  received :: nat
  status :: status

definition fresh :: "'o worker" where
  "fresh = \<lparr>outChan = [], errChan = [], received = 0, status = Running\<rparr>"

text \<open>
  A send on a channel made with capacity \<open>cap\<close>, in the worst case where the caller has
  read nothing yet: it proceeds when fewer than \<open>cap\<close> messages were written before, and
  blocks otherwise (\<open>None\<close>).
\<close>

definition chan_send :: "nat \<Rightarrow> 'a list \<Rightarrow> 'a \<Rightarrow> 'a list option" where
  "chan_send cap q v = (if length q < cap then Some (q @ [v]) else None)"

text \<open>\<open>errChan <- err\<close> on \<open>make(chan error, 1)\<close>.\<close>

definition send_err :: "'o worker \<Rightarrow> error \<Rightarrow> 'o worker" where
  "send_err w err =
     (case chan_send 1 (errChan w) err of
        Some q \<Rightarrow> w\<lparr>errChan := q\<rparr>
      | None \<Rightarrow> w\<lparr>status := Blocked\<rparr>)"

text \<open>A send on the output channel made with capacity 1 (spend and confirmation).\<close>

definition send_out :: "'o worker \<Rightarrow> 'o \<Rightarrow> 'o worker" where
  "send_out w v =
     (case chan_send 1 (outChan w) v of
        Some q \<Rightarrow> w\<lparr>outChan := q\<rparr>
      | None \<Rightarrow> w\<lparr>status := Blocked\<rparr>)"

text \<open>\<open>return\<close>: reached only when the statement before it did not block.\<close>

definition go_return :: "'o worker \<Rightarrow> 'o worker" where
  "go_return w = (if status w = Running then w\<lparr>status := Returned\<rparr> else w)"

text \<open>
  \<open>for { ... }\<close> over the results that \<open>Recv\<close> delivers, in order. The body runs once
  per delivered result for as long as the worker is still in the loop; a result that
  arrives after the worker left the loop is never received.
\<close>

fun for_loop :: "('o worker \<Rightarrow> 'r \<Rightarrow> 'o worker) \<Rightarrow> 'o worker \<Rightarrow> 'r list \<Rightarrow> 'o worker" where
  "for_loop body w [] = w"
| "for_loop body w (r # rs) =
     (if status w = Running then for_loop body (body w r) rs else w)"

subsection \<open>Spend subscription\<close>

record Outpoint =
  Hash :: bytes
  Index :: uint32

record SpendDetails =
  SpendingOutpoint :: "Outpoint option"
  RawSpendingTx :: bytes
  SpendingTxHash :: bytes
  SpendingInputIndex :: uint32
  SpendingHeight :: uint32

text \<open>
  The dynamic type of \<open>spendEvent.Event\<close>: a \<open>*chainrpc.SpendEvent_Spend\<close> with its
  \<open>Spend\<close> pointer, a reorg, the nil interface, or any other implementation.
\<close>

datatype SpendEvent_Event =
  SpendEvent_Spend "SpendDetails option"
| SpendEvent_Reorg
| SpendEvent_nil
| SpendEvent_other

datatype SpendEvent = SpendEvent (spend_Event: SpendEvent_Event)

record OutPoint =
  wire_Hash :: bytes
  wire_Index :: uint32

record 'tx SpendDetail =
  SpentOutPoint :: OutPoint
  SpenderTxHash :: bytes
  SpenderInputIndex :: uint32
  SpendingTx :: 'tx
  ntfn_SpendingHeight :: int32

text \<open>
  The closure \<open>processSpendDetail\<close>. \<open>decodeTx\<close> is defined elsewhere in the package and
  is a parameter here. The result is the returned error (\<open>None\<close> for nil) with the
  worker after the send on \<open>spendChan\<close>.
\<close>

definition processSpendDetail ::
  "(bytes \<Rightarrow> error + 'tx) \<Rightarrow> SpendDetails option \<Rightarrow> 'tx SpendDetail worker
    \<Rightarrow> (error option \<times> 'tx SpendDetail worker) eval" where
  "processSpendDetail decodeTx d w =
     (case d of
        None \<Rightarrow> Panic
      | Some d \<Rightarrow>
         (case SpendingOutpoint d of
            None \<Rightarrow> Panic
          | Some spendingOutpoint \<Rightarrow>
             (case NewHash (Hash spendingOutpoint) of
                Inl err \<Rightarrow> Value (Some err, w)
              | Inr outpointHash \<Rightarrow>
                 (case NewHash (SpendingTxHash d) of
                    Inl err \<Rightarrow> Value (Some err, w)
                  | Inr txHash \<Rightarrow>
                     (case decodeTx (RawSpendingTx d) of
                        Inl err \<Rightarrow> Value (Some err, w)
                      | Inr tx \<Rightarrow>
                         Value (None, send_out w
                           \<lparr>SpentOutPoint =
                              \<lparr>wire_Hash = outpointHash, wire_Index = Index spendingOutpoint\<rparr>,
                            SpenderTxHash = txHash,
                            SpenderInputIndex = SpendingInputIndex d,
                            SpendingTx = tx,
                            ntfn_SpendingHeight = int32_of_uint32 (SpendingHeight d)\<rparr>))))))"

text \<open>One iteration of the spend worker's loop on the result of \<open>resp.Recv()\<close>.\<close>

definition spendIter ::
  "(bytes \<Rightarrow> error + 'tx) \<Rightarrow> 'tx SpendDetail worker \<Rightarrow> error + SpendEvent
    \<Rightarrow> 'tx SpendDetail worker" where
  "spendIter decodeTx w0 r =
     (let w = w0\<lparr>received := Suc (received w0)\<rparr> in
      case r of
        Inl err \<Rightarrow> go_return (send_err w err)
      | Inr spendEvent \<Rightarrow>
         (case spend_Event spendEvent of
            SpendEvent_Spend c_Spend \<Rightarrow>
              (case processSpendDetail decodeTx c_Spend w of
                 Panic \<Rightarrow> w\<lparr>status := Panicked\<rparr>
               | Value (err, w') \<Rightarrow>
                  (case err of
                     Some e \<Rightarrow> go_return (send_err w' e)
                   | None \<Rightarrow> go_return w'))
          | _ \<Rightarrow> w))"

definition spendWorker ::
  "(bytes \<Rightarrow> error + 'tx) \<Rightarrow> (error + SpendEvent) list \<Rightarrow> 'tx SpendDetail worker" where
  "spendWorker decodeTx stream = for_loop (spendIter decodeTx) fresh stream"

subsection \<open>Confirmation subscription\<close>

record ConfDetails =
  RawTx :: bytes
  BlockHash :: bytes
  BlockHeight :: uint32
  TxIndex :: uint32

text \<open>
  The dynamic type of \<open>confEvent.Event\<close>, in the order of the type switch: a
  \<open>*chainrpc.ConfEvent_Conf\<close> with its \<open>Conf\<close> pointer, a reorg, the nil interface, or
  any other implementation (the \<open>default\<close> branch).
\<close>

datatype ConfEvent_Event =
  ConfEvent_Conf "ConfDetails option"
| ConfEvent_Reorg
| ConfEvent_nil
| ConfEvent_other

datatype ConfEvent = ConfEvent (conf_Event: ConfEvent_Event)

record 'tx TxConfirmation =
  ntfn_BlockHeight :: uint32
  ntfn_BlockHash :: bytes
  Tx :: 'tx
  ntfn_TxIndex :: uint32

text \<open>One iteration of the confirmation worker's loop on the result of \<open>confStream.Recv()\<close>.\<close>

definition confIter ::
  "(bytes \<Rightarrow> error + 'tx) \<Rightarrow> 'tx TxConfirmation worker \<Rightarrow> error + ConfEvent
    \<Rightarrow> 'tx TxConfirmation worker" where
  "confIter decodeTx w0 r =
     (let w = w0\<lparr>received := Suc (received w0)\<rparr> in
      case r of
        Inl err \<Rightarrow> go_return (send_err w err)
      | Inr confEvent \<Rightarrow>
         (case conf_Event confEvent of
            ConfEvent_Conf c_Conf \<Rightarrow>
              (case c_Conf of
                 None \<Rightarrow> w\<lparr>status := Panicked\<rparr>
               | Some conf \<Rightarrow>
                  (case decodeTx (RawTx conf) of
                     Inl err \<Rightarrow> go_return (send_err w err)
                   | Inr tx \<Rightarrow>
                      (case NewHash (BlockHash conf) of
                         Inl err \<Rightarrow> go_return (send_err w err)
                       | Inr blockHash \<Rightarrow>
                          go_return (send_out w
                            \<lparr>ntfn_BlockHeight = BlockHeight conf,
                             ntfn_BlockHash = blockHash,
                             Tx = tx,
                             ntfn_TxIndex = TxIndex conf\<rparr>))))
          | ConfEvent_Reorg \<Rightarrow> w
          | ConfEvent_nil \<Rightarrow> go_return (send_err w (Errorf ''conf event empty''))
          | ConfEvent_other \<Rightarrow>
              go_return (send_err w (Errorf ''conf event has unexpected type''))))"

definition confWorker ::
  "(bytes \<Rightarrow> error + 'tx) \<Rightarrow> (error + ConfEvent) list \<Rightarrow> 'tx TxConfirmation worker" where
  "confWorker decodeTx stream = for_loop (confIter decodeTx) fresh stream"

subsection \<open>Block epoch subscription\<close>

record BlockEpoch =
  epoch_Hash :: bytes
  Height :: uint32

text \<open>
  The \<open>select\<close> statement has two cases: the send on the unbuffered \<open>blockEpochChan\<close>, which
  can proceed when a receiver is waiting, and the receive from \<open>ctx.Done()\<close>, which can
  proceed when the context is cancelled. What the worker's surroundings offer to one
  execution of the statement: whether each case can proceed when the statement is
  entered, the runtime's pseudo-random pick among cases that can both proceed, and, when
  neither can proceed on entry, the case that becomes ready first (\<open>None\<close>: neither ever does).
\<close>

datatype select_case = CaseSend | CaseDone

record select_env =
  ctx_done :: bool
  receiver_ready :: bool
  pick :: select_case
  wakeup :: "select_case option"

definition go_select :: "select_env \<Rightarrow> select_case option" where
  "go_select env =
     (if receiver_ready env \<and> ctx_done env then Some (pick env)
      else if receiver_ready env then Some CaseSend
      else if ctx_done env then Some CaseDone
      else wakeup env)"

text \<open>
  One iteration of the block epoch worker's loop: the result of \<open>blockEpochClient.Recv()\<close>
  and the surroundings of the \<open>select\<close> that follows a received epoch.
\<close>

definition epochIter ::
  "int32 worker \<Rightarrow> (error + BlockEpoch) \<times> select_env \<Rightarrow> int32 worker" where
  "epochIter w0 r =
     (let w = w0\<lparr>received := Suc (received w0)\<rparr> in
      case fst r of
        Inl err \<Rightarrow> go_return (send_err w err)
      | Inr epoch \<Rightarrow>
         (case go_select (snd r) of
            Some CaseSend \<Rightarrow> w\<lparr>outChan := outChan w @ [int32_of_uint32 (Height epoch)]\<rparr>
          | Some CaseDone \<Rightarrow> go_return w
          | None \<Rightarrow> w\<lparr>status := Blocked\<rparr>))"

definition epochWorker :: "((error + BlockEpoch) \<times> select_env) list \<Rightarrow> int32 worker" where
  "epochWorker stream = for_loop epochIter fresh stream"

section \<open>Registration and shutdown\<close>

text \<open>A channel value as \<open>make\<close> returns it, with its capacity; a nil channel is \<open>None\<close>.\<close>

datatype chan = MakeChan nat

record SpendRequest =
  spend_HeightHint :: uint32
  spend_Outpoint :: "Outpoint option"
  spend_Script :: bytes

record ConfRequest =
  conf_Script :: bytes
  NumConfs :: uint32
  conf_HeightHint :: uint32
  Txid :: bytes

text \<open>A goroutine started by one of the three registrations, with its worker's state.\<close>

datatype 'tx goroutine =
  SpendRoutine "'tx SpendDetail worker"
| ConfRoutine "'tx TxConfirmation worker"
| EpochRoutine "int32 worker"

text \<open>
  The client: the counter of its \<open>sync.WaitGroup\<close> and the goroutines it has started.
\<close>

record 'tx chainNotifierClient =
  wg :: int
  goroutines :: "'tx goroutine list"

definition newChainNotifierClient :: "'tx chainNotifierClient" where
  "newChainNotifierClient = \<lparr>wg = 0, goroutines = []\<rparr>"

text \<open>\<open>s.wg.Add(1)\<close> followed by \<open>go func() { ... }()\<close>.\<close>

definition spawn :: "'tx chainNotifierClient \<Rightarrow> 'tx goroutine \<Rightarrow> 'tx chainNotifierClient" where
  "spawn s g = s\<lparr>wg := wg s + 1, goroutines := goroutines s @ [g]\<rparr>"

text \<open>
  The request literals of \<open>RegisterSpendNtfn\<close> (with \<open>rpcOutpoint\<close>, which stays nil
  for a nil \<open>outpoint\<close>) and of \<open>RegisterConfirmationsNtfn\<close> (with \<open>txidSlice\<close>, which
  stays the nil slice for a nil \<open>txid\<close>).
\<close>

definition spendRequest :: "OutPoint option \<Rightarrow> bytes \<Rightarrow> int32 \<Rightarrow> SpendRequest" where
  "spendRequest outpoint pkScript heightHint =
     (let rpcOutpoint =
            (case outpoint of
               None \<Rightarrow> None
             | Some outpoint \<Rightarrow> Some \<lparr>Hash = wire_Hash outpoint, Index = wire_Index outpoint\<rparr>)
      in \<lparr>spend_HeightHint = uint32_of_int32 heightHint,
          spend_Outpoint = rpcOutpoint,
          spend_Script = pkScript\<rparr>)"

definition confRequest :: "bytes option \<Rightarrow> bytes \<Rightarrow> int32 \<Rightarrow> int32 \<Rightarrow> ConfRequest" where
  "confRequest txid pkScript numConfs heightHint =
     (let txidSlice = (case txid of None \<Rightarrow> [] | Some txid \<Rightarrow> txid)
      in \<lparr>conf_Script = pkScript,
          NumConfs = uint32_of_int32 numConfs,
          conf_HeightHint = uint32_of_int32 heightHint,
          Txid = txidSlice\<rparr>)"

text \<open>
  The registrations. \<open>client\<close> is the RPC that opens the stream; it yields the
  establishment error, or \<open>None\<close> with the stream. The result is the triple that the Go
  function returns, with the client afterwards.
\<close>

definition RegisterSpendNtfn ::
  "(SpendRequest \<Rightarrow> error option) \<Rightarrow> 'tx chainNotifierClient \<Rightarrow> OutPoint option \<Rightarrow> bytes
    \<Rightarrow> int32 \<Rightarrow> (chan option \<times> chan option \<times> error option) \<times> 'tx chainNotifierClient" where
  "RegisterSpendNtfn client s outpoint pkScript heightHint =
     (case client (spendRequest outpoint pkScript heightHint) of
        Some err \<Rightarrow> ((None, None, Some err), s)
      | None \<Rightarrow>
          ((Some (MakeChan 1), Some (MakeChan 1), None), spawn s (SpendRoutine fresh)))"

definition RegisterConfirmationsNtfn ::
  "(ConfRequest \<Rightarrow> error option) \<Rightarrow> 'tx chainNotifierClient \<Rightarrow> bytes option \<Rightarrow> bytes
    \<Rightarrow> int32 \<Rightarrow> int32
    \<Rightarrow> (chan option \<times> chan option \<times> error option) \<times> 'tx chainNotifierClient" where
  "RegisterConfirmationsNtfn client s txid pkScript numConfs heightHint =
     (case client (confRequest txid pkScript numConfs heightHint) of
        Some err \<Rightarrow> ((None, None, Some err), s)
      | None \<Rightarrow>
          ((Some (MakeChan 1), Some (MakeChan 1), None), spawn s (ConfRoutine fresh)))"

text \<open>
  The block epoch request is the empty \<open>chainrpc.BlockEpoch\<close>; the output channel is
  unbuffered and is returned first, the error channel has capacity 1.
\<close>

definition RegisterBlockEpochNtfn ::
  "(unit \<Rightarrow> error option) \<Rightarrow> 'tx chainNotifierClient
    \<Rightarrow> (chan option \<times> chan option \<times> error option) \<times> 'tx chainNotifierClient" where
  "RegisterBlockEpochNtfn client s =
     (case client () of
        Some err \<Rightarrow> ((None, None, Some err), s)
      | None \<Rightarrow>
          ((Some (MakeChan 0), Some (MakeChan 1), None), spawn s (EpochRoutine fresh)))"

subsection \<open>The goroutines at run time\<close>

fun routine_status :: "'tx goroutine \<Rightarrow> status" where
  "routine_status (SpendRoutine w) = status w"
| "routine_status (ConfRoutine w) = status w"
| "routine_status (EpochRoutine w) = status w"

text \<open>A goroutine has exited when its function returned or panicked.\<close>

definition exited :: "status \<Rightarrow> bool" where
  "exited st = (st = Returned \<or> st = Panicked)"

text \<open>What a stream hands to the goroutine that reads it.\<close>

datatype delivery =
  ToSpend "error + SpendEvent"
| ToConf "error + ConfEvent"
| ToEpoch "(error + BlockEpoch) \<times> select_env"

text \<open>
  One loop iteration of a goroutine on a delivery from its own stream; a delivery of
  another kind is not from its stream and leaves it as it is.
\<close>

fun routine_iter :: "(bytes \<Rightarrow> error + 'tx) \<Rightarrow> 'tx goroutine \<Rightarrow> delivery \<Rightarrow> 'tx goroutine" where
  "routine_iter decodeTx (SpendRoutine w) (ToSpend r) = SpendRoutine (spendIter decodeTx w r)"
| "routine_iter decodeTx (ConfRoutine w) (ToConf r) = ConfRoutine (confIter decodeTx w r)"
| "routine_iter decodeTx (EpochRoutine w) (ToEpoch r) = EpochRoutine (epochIter w r)"
| "routine_iter decodeTx g _ = g"

text \<open>
  \<open>defer s.wg.Done()\<close>: the counter is decremented when the goroutine's function exits.
\<close>

definition deferred_Done :: "'tx chainNotifierClient \<Rightarrow> status \<Rightarrow> 'tx chainNotifierClient" where
  "deferred_Done s st = (if exited st then s\<lparr>wg := wg s - 1\<rparr> else s)"

text \<open>
  The events of a run: a call of one of the registrations (with the outcome of the stream
  establishment and the arguments), or the \<open>i\<close>-th goroutine, still in its loop, running
  one iteration on the next result of its stream.
\<close>

datatype action =
  CallRegisterSpendNtfn "error option" "OutPoint option" bytes int32
| CallRegisterConfirmationsNtfn "error option" "bytes option" bytes int32 int32
| CallRegisterBlockEpochNtfn "error option"
| Deliver nat delivery

fun apply_action ::
  "(bytes \<Rightarrow> error + 'tx) \<Rightarrow> 'tx chainNotifierClient \<Rightarrow> action \<Rightarrow> 'tx chainNotifierClient" where
  "apply_action decodeTx s (CallRegisterSpendNtfn res outpoint pkScript heightHint) =
     snd (RegisterSpendNtfn (\<lambda>_. res) s outpoint pkScript heightHint)"
| "apply_action decodeTx s (CallRegisterConfirmationsNtfn res txid pkScript numConfs heightHint) =
     snd (RegisterConfirmationsNtfn (\<lambda>_. res) s txid pkScript numConfs heightHint)"
| "apply_action decodeTx s (CallRegisterBlockEpochNtfn res) =
     snd (RegisterBlockEpochNtfn (\<lambda>_. res) s)"
| "apply_action decodeTx s (Deliver i d) =
     (if i < length (goroutines s) \<and> routine_status (goroutines s ! i) = Running then
        (let g = routine_iter decodeTx (goroutines s ! i) d in
         deferred_Done (s\<lparr>goroutines := (goroutines s)[i := g]\<rparr>) (routine_status g))
      else s)"

fun run ::
  "(bytes \<Rightarrow> error + 'tx) \<Rightarrow> 'tx chainNotifierClient \<Rightarrow> action list \<Rightarrow> 'tx chainNotifierClient" where
  "run decodeTx s [] = s"
| "run decodeTx s (a # as) = run decodeTx (apply_action decodeTx s a) as"

text \<open>
  \<open>WaitForFinished\<close> is \<open>s.wg.Wait()\<close>, which returns when the counter is zero and blocks
  otherwise.
\<close>

definition WaitForFinished_returns :: "'tx chainNotifierClient \<Rightarrow> bool" where
  "WaitForFinished_returns s = (wg s = 0)"

subsection \<open>Stream results that a worker passes over\<close>

text \<open>The \<open>ok\<close> of the type assertion \<open>spendEvent.Event.(*chainrpc.SpendEvent_Spend)\<close>.\<close>

definition spend_ok :: "SpendEvent_Event \<Rightarrow> bool" where
  "spend_ok ev = (case ev of SpendEvent_Spend _ \<Rightarrow> True | _ \<Rightarrow> False)"

text \<open>A received event that is not tagged as a spend.\<close>

fun non_spend :: "error + SpendEvent \<Rightarrow> bool" where
  "non_spend (Inl err) = False"
| "non_spend (Inr spendEvent) = (\<not> spend_ok (spend_Event spendEvent))"

text \<open>A received event that is tagged as a reorg.\<close>

fun is_reorg :: "error + ConfEvent \<Rightarrow> bool" where
  "is_reorg (Inr (ConfEvent ConfEvent_Reorg)) = True"
| "is_reorg _ = False"

text \<open>The epochs that a stream delivers before its first error.\<close>

fun epochs_received :: "(error + BlockEpoch) list \<Rightarrow> BlockEpoch list" where
  "epochs_received [] = []"
| "epochs_received (Inl err # rs) = []"
| "epochs_received (Inr epoch # rs) = epoch # epochs_received rs"

text \<open>The first error that a stream delivers, if any.\<close>

fun first_error :: "(error + 'a) list \<Rightarrow> error list" where
  "first_error [] = []"
| "first_error (Inl err # rs) = [err]"
| "first_error (Inr x # rs) = first_error rs"

text \<open>
  The surroundings of a \<open>select\<close> in which the context is not cancelled, neither on
  entry nor while the statement waits.
\<close>

definition not_cancelled :: "select_env \<Rightarrow> bool" where
  "not_cancelled env = (\<not> ctx_done env \<and> wakeup env \<noteq> Some CaseDone)"

text \<open>
  The surroundings of a \<open>select\<close> in which the caller receives from the output channel,
  on entry or while the statement waits.
\<close>

definition reader_takes :: "select_env \<Rightarrow> bool" where
  "reader_takes env = (receiver_ready env \<or> wakeup env = Some CaseSend)"

text \<open>The goroutines that have not exited.\<close>

definition live :: "'tx goroutine list \<Rightarrow> 'tx goroutine list" where
  "live gs = filter (\<lambda>g. \<not> exited (routine_status g)) gs"

subsection \<open>Invariants of the workers\<close>




subsection \<open>Inputs for the concrete scenarios\<close>

text \<open>
  A stand-in for \<open>decodeTx\<close> in the concrete scenarios: it rejects the empty byte string
  and returns any other byte string as the transaction.
\<close>

definition sample_decodeTx :: "bytes \<Rightarrow> error + bytes" where
  "sample_decodeTx raw = (if raw = [] then Inl (ExternalError ''EOF'') else Inr raw)"

definition zero_hash :: bytes where
  "zero_hash = replicate 32 0"

definition sample_conf :: ConfDetails where
  "sample_conf = \<lparr>RawTx = [1, 2, 3], BlockHash = zero_hash, BlockHeight = 700000, TxIndex = 5\<rparr>"

definition sample_spend :: SpendDetails where
  "sample_spend =
     \<lparr>SpendingOutpoint = Some \<lparr>Hash = zero_hash, Index = 0\<rparr>,
      RawSpendingTx = [1, 2, 3],
      SpendingTxHash = replicate 32 17,
      SpendingInputIndex = 2,
      SpendingHeight = 700000\<rparr>"

text \<open>The surroundings of a \<open>select\<close> with a reader waiting and no cancellation.\<close>

definition reading :: select_env where
  "reading = \<lparr>ctx_done = False, receiver_ready = True, pick = CaseSend, wakeup = None\<rparr>"


section \<open>Properties\<close>

subsection \<open>The loop and the conversions\<close>

lemma for_loop_stopped: "status w \<noteq> Running \<Longrightarrow> for_loop body w rs = w"
  by (cases rs) simp_all

lemma for_loop_append:
  "for_loop body w (xs @ ys) = for_loop body (for_loop body w xs) ys"
  by (induction xs arbitrary: w) (simp_all add: for_loop_stopped)


lemma uint32_of_int32_id: "uint32_of_int32 x = x"
  by (simp add: uint32_of_int32_def)

lemma int32_of_uint32_id: "int32_of_uint32 x = x"
  by (simp add: int32_of_uint32_def)

lemma uint_uint32_of_int32: "uint (uint32_of_int32 x) = sint x mod 2 ^ 32"
  by (simp add: uint32_of_int32_id uint_sint take_bit_eq_mod)

lemma uint_of_sint32:
  "uint (x :: 32 word) = (if 0 \<le> sint x then sint x else sint x + 2 ^ 32)"
proof -
  have u: "uint x = sint x mod 2 ^ 32"
    by (simp add: uint_sint take_bit_eq_mod)
  have lo: "- (2 ^ 31) \<le> sint x" using sint_ge [of x] by simp
  have hi: "sint x < 2 ^ 31" using sint_lt [of x] by simp
  show ?thesis
  proof (cases "0 \<le> sint x")
    case True
    with hi have "sint x mod 2 ^ 32 = sint x" by (simp add: mod_pos_pos_trivial)
    with u True show ?thesis by simp
  next
    case False
    have "(sint x + 2 ^ 32) mod 2 ^ 32 = sint x + 2 ^ 32"
      using lo False by (intro mod_pos_pos_trivial) simp_all
    moreover have "sint x mod 2 ^ 32 = (sint x + 2 ^ 32) mod 2 ^ 32"
      by (simp only: mod_add_self2)
    ultimately show ?thesis using u False by simp
  qed
qed

lemma sint_int32_of_uint32:
  "sint (int32_of_uint32 x) = (if uint x < 2 ^ 31 then uint x else uint x - 2 ^ 32)"
proof -
  have lo: "- (2 ^ 31) \<le> sint x" using sint_ge [of x] by simp
  have hi: "sint x < 2 ^ 31" using sint_lt [of x] by simp
  show ?thesis
    using uint_of_sint32 [of x] lo hi by (simp add: int32_of_uint32_id split: if_splits)
qed

lemma negative_hint: "sint (x :: int32) < 0 \<Longrightarrow> 2 ^ 31 \<le> uint (uint32_of_int32 x)"
  using uint_of_sint32 [of x] sint_ge [of x] by (simp add: uint32_of_int32_id)

lemma high_height: "2 ^ 31 \<le> uint (x :: uint32) \<Longrightarrow> sint (int32_of_uint32 x) < 0"
  using uint_bounded [of x] by (simp add: sint_int32_of_uint32)


subsection \<open>The confirmation worker\<close>

lemma confIter_reorg:
  "confIter decodeTx w (Inr (ConfEvent ConfEvent_Reorg)) = w\<lparr>received := Suc (received w)\<rparr>"
  by (simp add: confIter_def)

lemma is_reorg_cases: "is_reorg r \<Longrightarrow> r = Inr (ConfEvent ConfEvent_Reorg)"
  by (cases r rule: is_reorg.cases) simp_all

lemma conf_loop_reorgs:
  "list_all is_reorg pre \<Longrightarrow> status w = Running \<Longrightarrow>
     for_loop (confIter decodeTx) w pre = w\<lparr>received := received w + length pre\<rparr>"
proof (induction pre arbitrary: w)
  case Nil
  then show ?case by simp
next
  case (Cons r pre)
  from Cons.prems have r: "r = Inr (ConfEvent ConfEvent_Reorg)" and rest: "list_all is_reorg pre"
    by (simp_all add: is_reorg_cases)
  have "status (w\<lparr>received := Suc (received w)\<rparr>) = Running" using Cons.prems by simp
  from Cons.IH [OF rest this] show ?case
    using Cons.prems by (simp add: r confIter_reorg)
qed

lemma confWorker_reorgs:
  "list_all is_reorg pre \<Longrightarrow> confWorker decodeTx pre = fresh\<lparr>received := length pre\<rparr>"
  by (simp add: confWorker_def conf_loop_reorgs fresh_def)

lemma for_loop_exit:
  "status w = Running \<Longrightarrow> status (body w r) \<noteq> Running \<Longrightarrow>
     for_loop body w (r # rest) = body w r"
  by (simp add: for_loop_stopped)

lemma confWorker_terminal:
  assumes "list_all is_reorg pre"
    and "status (confIter decodeTx (fresh\<lparr>received := length pre\<rparr>) r) \<noteq> Running"
  shows "confWorker decodeTx (pre @ r # rest) =
         confIter decodeTx (fresh\<lparr>received := length pre\<rparr>) r"
proof -
  have "confWorker decodeTx (pre @ r # rest) =
        for_loop (confIter decodeTx) (confWorker decodeTx pre) (r # rest)"
    by (simp add: confWorker_def for_loop_append)
  also have "\<dots> = for_loop (confIter decodeTx) (fresh\<lparr>received := length pre\<rparr>) (r # rest)"
    by (simp add: confWorker_reorgs [OF assms(1)])
  also have "\<dots> = confIter decodeTx (fresh\<lparr>received := length pre\<rparr>) r"
    by (rule for_loop_exit) (use assms(2) in \<open>simp_all add: fresh_def\<close>)
  finally show ?thesis .
qed

lemma send_err_empty:
  "errChan w = [] \<Longrightarrow> send_err w err = w\<lparr>errChan := [err]\<rparr>"
  by (simp add: send_err_def chan_send_def)

lemma send_out_empty:
  "outChan w = [] \<Longrightarrow> send_out w v = w\<lparr>outChan := [v]\<rparr>"
  by (simp add: send_out_def chan_send_def)

lemma go_return_not_running: "status (go_return w) \<noteq> Running"
  by (simp add: go_return_def)

lemma outChan_go_return: "outChan (go_return w) = outChan w"
  by (simp add: go_return_def)

lemma errChan_go_return: "errChan (go_return w) = errChan w"
  by (simp add: go_return_def)

lemma received_go_return: "received (go_return w) = received w"
  by (simp add: go_return_def)

lemma outChan_send_err: "outChan (send_err w err) = outChan w"
  by (simp add: send_err_def split: option.splits)

lemma errChan_send_out: "errChan (send_out w v) = errChan w"
  by (simp add: send_out_def split: option.splits)

lemma go_return_running:
  "status w = Running \<Longrightarrow> go_return w = w\<lparr>status := Returned\<rparr>"
  by (simp add: go_return_def)

lemma confIter_conf:
  "decodeTx (RawTx conf) = Inr tx \<Longrightarrow> NewHash (BlockHash conf) = Inr blockHash \<Longrightarrow>
   status w = Running \<Longrightarrow> outChan w = [] \<Longrightarrow>
     confIter decodeTx w (Inr (ConfEvent (ConfEvent_Conf (Some conf)))) =
       w\<lparr>outChan := [\<lparr>ntfn_BlockHeight = BlockHeight conf, ntfn_BlockHash = blockHash,
                        Tx = tx, ntfn_TxIndex = TxIndex conf\<rparr>],
         received := Suc (received w), status := Returned\<rparr>"
  by (simp add: confIter_def send_out_empty go_return_running)

lemma confIter_nil:
  "status w = Running \<Longrightarrow> errChan w = [] \<Longrightarrow>
     confIter decodeTx w (Inr (ConfEvent ConfEvent_nil)) =
       w\<lparr>errChan := [Errorf ''conf event empty''],
         received := Suc (received w), status := Returned\<rparr>"
  by (simp add: confIter_def send_err_empty go_return_running)

lemma confIter_other:
  "status w = Running \<Longrightarrow> errChan w = [] \<Longrightarrow>
     confIter decodeTx w (Inr (ConfEvent ConfEvent_other)) =
       w\<lparr>errChan := [Errorf ''conf event has unexpected type''],
         received := Suc (received w), status := Returned\<rparr>"
  by (simp add: confIter_def send_err_empty go_return_running)

text \<open>
  C1. A confirmation worker whose stream was set up passes over every reorg event without
  writing anything and stays in its loop. After any number of reorg events, a confirmed
  event whose transaction and block hash decode makes it write exactly one
  \<open>TxConfirmation\<close> (decoded transaction, decoded block hash, block height, transaction
  index) and return with no error written; a nil event makes it write exactly the error
  "conf event empty" and return with no confirmation written; an event of any other type
  makes it write exactly the error "conf event has unexpected type" and return. Whatever
  the stream delivers afterwards is not received.
\<close>

theorem conf_worker_classifies:
  assumes "list_all is_reorg pre"
  shows "confWorker decodeTx pre = fresh\<lparr>received := length pre\<rparr> \<and>
    (decodeTx (RawTx conf) = Inr tx \<and> NewHash (BlockHash conf) = Inr blockHash \<longrightarrow>
       confWorker decodeTx (pre @ Inr (ConfEvent (ConfEvent_Conf (Some conf))) # rest) =
         \<lparr>outChan = [\<lparr>ntfn_BlockHeight = BlockHeight conf, ntfn_BlockHash = blockHash,
                      Tx = tx, ntfn_TxIndex = TxIndex conf\<rparr>],
          errChan = [], received = Suc (length pre), status = Returned\<rparr>) \<and>
    confWorker decodeTx (pre @ Inr (ConfEvent ConfEvent_nil) # rest) =
      \<lparr>outChan = [], errChan = [Errorf ''conf event empty''],
       received = Suc (length pre), status = Returned\<rparr> \<and>
    confWorker decodeTx (pre @ Inr (ConfEvent ConfEvent_other) # rest) =
      \<lparr>outChan = [], errChan = [Errorf ''conf event has unexpected type''],
       received = Suc (length pre), status = Returned\<rparr>"
proof (intro conjI impI)
  show "confWorker decodeTx pre = fresh\<lparr>received := length pre\<rparr>"
    by (rule confWorker_reorgs [OF assms])
next
  assume "decodeTx (RawTx conf) = Inr tx \<and> NewHash (BlockHash conf) = Inr blockHash"
  then have it: "confIter decodeTx (fresh\<lparr>received := length pre\<rparr>)
                (Inr (ConfEvent (ConfEvent_Conf (Some conf)))) =
              \<lparr>outChan = [\<lparr>ntfn_BlockHeight = BlockHeight conf, ntfn_BlockHash = blockHash,
                        Tx = tx, ntfn_TxIndex = TxIndex conf\<rparr>],
               errChan = [], received = Suc (length pre), status = Returned\<rparr>"
    by (simp add: confIter_conf fresh_def)
  show "confWorker decodeTx (pre @ Inr (ConfEvent (ConfEvent_Conf (Some conf))) # rest) =
           \<lparr>outChan = [\<lparr>ntfn_BlockHeight = BlockHeight conf, ntfn_BlockHash = blockHash,
                        Tx = tx, ntfn_TxIndex = TxIndex conf\<rparr>],
            errChan = [], received = Suc (length pre), status = Returned\<rparr>"
    using confWorker_terminal [OF assms, of decodeTx "Inr (ConfEvent (ConfEvent_Conf (Some conf)))" rest]
    by (simp add: it)
next
  have it: "confIter decodeTx (fresh\<lparr>received := length pre\<rparr>) (Inr (ConfEvent ConfEvent_nil)) =
           \<lparr>outChan = [], errChan = [Errorf ''conf event empty''],
            received = Suc (length pre), status = Returned\<rparr>"
    by (simp add: confIter_nil fresh_def)
  show "confWorker decodeTx (pre @ Inr (ConfEvent ConfEvent_nil) # rest) =
           \<lparr>outChan = [], errChan = [Errorf ''conf event empty''],
            received = Suc (length pre), status = Returned\<rparr>"
    using confWorker_terminal [OF assms, of decodeTx "Inr (ConfEvent ConfEvent_nil)" rest]
    by (simp add: it)
next
  have it: "confIter decodeTx (fresh\<lparr>received := length pre\<rparr>) (Inr (ConfEvent ConfEvent_other)) =
           \<lparr>outChan = [], errChan = [Errorf ''conf event has unexpected type''],
            received = Suc (length pre), status = Returned\<rparr>"
    by (simp add: confIter_other fresh_def)
  show "confWorker decodeTx (pre @ Inr (ConfEvent ConfEvent_other) # rest) =
           \<lparr>outChan = [], errChan = [Errorf ''conf event has unexpected type''],
            received = Suc (length pre), status = Returned\<rparr>"
    using confWorker_terminal [OF assms, of decodeTx "Inr (ConfEvent ConfEvent_other)" rest]
    by (simp add: it)
qed

lemma NewHash_zero_hash: "NewHash zero_hash = Inr zero_hash"
  by (simp add: NewHash_def zero_hash_def)

text \<open>
  The two scenarios of C1: a reorg event followed by a confirmed event gives one
  confirmation and no error, and a single nil event gives one error and no confirmation.
\<close>

theorem conf_worker_classifies_witness:
  "list_all is_reorg [Inr (ConfEvent ConfEvent_Reorg)] \<and>
   sample_decodeTx (RawTx sample_conf) = Inr [1, 2, 3] \<and>
   NewHash (BlockHash sample_conf) = Inr zero_hash \<and>
   confWorker sample_decodeTx
     [Inr (ConfEvent ConfEvent_Reorg), Inr (ConfEvent (ConfEvent_Conf (Some sample_conf)))] =
     \<lparr>outChan = [\<lparr>ntfn_BlockHeight = 700000, ntfn_BlockHash = zero_hash,
                  Tx = [1, 2, 3], ntfn_TxIndex = 5\<rparr>],
      errChan = [], received = 2, status = Returned\<rparr> \<and>
   confWorker sample_decodeTx [Inr (ConfEvent ConfEvent_nil)] =
     \<lparr>outChan = [], errChan = [Errorf ''conf event empty''], received = 1, status = Returned\<rparr>"
proof -
  have r: "list_all is_reorg [Inr (ConfEvent ConfEvent_Reorg)]" by simp
  have e: "list_all is_reorg []" by simp
  have d: "sample_decodeTx (RawTx sample_conf) = Inr [1, 2, 3]"
    by (simp add: sample_decodeTx_def sample_conf_def)
  have h: "NewHash (BlockHash sample_conf) = Inr zero_hash"
    by (simp add: sample_conf_def NewHash_zero_hash)
  show ?thesis
    using conf_worker_classifies [OF r, of sample_decodeTx sample_conf "[1, 2, 3]" zero_hash "[]"]
      conf_worker_classifies [OF e, of sample_decodeTx sample_conf "[1, 2, 3]" zero_hash "[]"]
      d h
    by (simp add: sample_conf_def)
qed


subsection \<open>The spend worker\<close>

lemma spendIter_non_spend:
  "non_spend r \<Longrightarrow> spendIter decodeTx w r = w\<lparr>received := Suc (received w)\<rparr>"
  by (cases r rule: non_spend.cases)
     (simp_all add: spendIter_def spend_ok_def split: SpendEvent_Event.splits)

lemma spend_loop_non_spend:
  "list_all non_spend pre \<Longrightarrow> status w = Running \<Longrightarrow>
     for_loop (spendIter decodeTx) w pre = w\<lparr>received := received w + length pre\<rparr>"
proof (induction pre arbitrary: w)
  case Nil
  then show ?case by simp
next
  case (Cons r pre)
  from Cons.prems have r: "non_spend r" and rest: "list_all non_spend pre"
    by simp_all
  have "status (w\<lparr>received := Suc (received w)\<rparr>) = Running" using Cons.prems by simp
  from Cons.IH [OF rest this] show ?case
    using Cons.prems by (simp add: spendIter_non_spend [OF r])
qed

lemma spendWorker_non_spend:
  "list_all non_spend pre \<Longrightarrow> spendWorker decodeTx pre = fresh\<lparr>received := length pre\<rparr>"
  by (simp add: spendWorker_def spend_loop_non_spend fresh_def)

lemma spendWorker_terminal:
  assumes "list_all non_spend pre"
    and "status (spendIter decodeTx (fresh\<lparr>received := length pre\<rparr>) r) \<noteq> Running"
  shows "spendWorker decodeTx (pre @ r # rest) =
         spendIter decodeTx (fresh\<lparr>received := length pre\<rparr>) r"
proof -
  have "spendWorker decodeTx (pre @ r # rest) =
        for_loop (spendIter decodeTx) (spendWorker decodeTx pre) (r # rest)"
    by (simp add: spendWorker_def for_loop_append)
  also have "\<dots> = for_loop (spendIter decodeTx) (fresh\<lparr>received := length pre\<rparr>) (r # rest)"
    by (simp add: spendWorker_non_spend [OF assms(1)])
  also have "\<dots> = spendIter decodeTx (fresh\<lparr>received := length pre\<rparr>) r"
    by (rule for_loop_exit) (use assms(2) in \<open>simp_all add: fresh_def\<close>)
  finally show ?thesis .
qed

lemma processSpendDetail_ok:
  "SpendingOutpoint d = Some spendingOutpoint \<Longrightarrow>
   NewHash (Hash spendingOutpoint) = Inr outpointHash \<Longrightarrow>
   NewHash (SpendingTxHash d) = Inr txHash \<Longrightarrow>
   decodeTx (RawSpendingTx d) = Inr tx \<Longrightarrow>
   outChan w = [] \<Longrightarrow>
     processSpendDetail decodeTx (Some d) w =
       Value (None, w\<lparr>outChan :=
         [\<lparr>SpentOutPoint = \<lparr>wire_Hash = outpointHash, wire_Index = Index spendingOutpoint\<rparr>,
           SpenderTxHash = txHash,
           SpenderInputIndex = SpendingInputIndex d,
           SpendingTx = tx,
           ntfn_SpendingHeight = int32_of_uint32 (SpendingHeight d)\<rparr>]\<rparr>)"
  by (simp add: processSpendDetail_def send_out_empty)

text \<open>
  C2. A spend worker whose stream was set up passes over every event that is not tagged
  as a spend, writing nothing to either channel and staying in its loop. On the first
  spend event (one that decodes) it writes exactly one \<open>SpendDetail\<close> to the output
  channel of capacity 1 and returns; the detail carries the event's spending outpoint,
  spending transaction hash, spending input index, decoded transaction and spending
  height. Whatever the stream delivers afterwards is not received.
\<close>

theorem spend_worker_first_spend:
  assumes "list_all non_spend pre"
  shows "spendWorker decodeTx pre = fresh\<lparr>received := length pre\<rparr> \<and>
    (SpendingOutpoint d = Some spendingOutpoint \<and>
     NewHash (Hash spendingOutpoint) = Inr outpointHash \<and>
     NewHash (SpendingTxHash d) = Inr txHash \<and>
     decodeTx (RawSpendingTx d) = Inr tx \<longrightarrow>
       spendWorker decodeTx (pre @ Inr (SpendEvent (SpendEvent_Spend (Some d))) # rest) =
         \<lparr>outChan =
            [\<lparr>SpentOutPoint = \<lparr>wire_Hash = outpointHash, wire_Index = Index spendingOutpoint\<rparr>,
              SpenderTxHash = txHash,
              SpenderInputIndex = SpendingInputIndex d,
              SpendingTx = tx,
              ntfn_SpendingHeight = int32_of_uint32 (SpendingHeight d)\<rparr>],
          errChan = [], received = Suc (length pre), status = Returned\<rparr>)"
proof (intro conjI impI)
  show "spendWorker decodeTx pre = fresh\<lparr>received := length pre\<rparr>"
    by (rule spendWorker_non_spend [OF assms])
next
  assume "SpendingOutpoint d = Some spendingOutpoint \<and>
     NewHash (Hash spendingOutpoint) = Inr outpointHash \<and>
     NewHash (SpendingTxHash d) = Inr txHash \<and>
     decodeTx (RawSpendingTx d) = Inr tx"
  then have it: "spendIter decodeTx (fresh\<lparr>received := length pre\<rparr>)
              (Inr (SpendEvent (SpendEvent_Spend (Some d)))) =
         \<lparr>outChan =
            [\<lparr>SpentOutPoint = \<lparr>wire_Hash = outpointHash, wire_Index = Index spendingOutpoint\<rparr>,
              SpenderTxHash = txHash,
              SpenderInputIndex = SpendingInputIndex d,
              SpendingTx = tx,
              ntfn_SpendingHeight = int32_of_uint32 (SpendingHeight d)\<rparr>],
          errChan = [], received = Suc (length pre), status = Returned\<rparr>"
    by (simp add: spendIter_def processSpendDetail_ok fresh_def go_return_running)
  show "spendWorker decodeTx (pre @ Inr (SpendEvent (SpendEvent_Spend (Some d))) # rest) =
         \<lparr>outChan =
            [\<lparr>SpentOutPoint = \<lparr>wire_Hash = outpointHash, wire_Index = Index spendingOutpoint\<rparr>,
              SpenderTxHash = txHash,
              SpenderInputIndex = SpendingInputIndex d,
              SpendingTx = tx,
              ntfn_SpendingHeight = int32_of_uint32 (SpendingHeight d)\<rparr>],
          errChan = [], received = Suc (length pre), status = Returned\<rparr>"
    using spendWorker_terminal [OF assms, of decodeTx "Inr (SpendEvent (SpendEvent_Spend (Some d)))" rest]
    by (simp add: it)
qed

text \<open>
  The scenario of C2: three events that are not spends (a reorg, a nil event, an event of
  another type) and then a spend event give exactly one \<open>SpendDetail\<close>.
\<close>

theorem spend_worker_first_spend_witness:
  "list_all non_spend
     [Inr (SpendEvent SpendEvent_Reorg), Inr (SpendEvent SpendEvent_nil),
      Inr (SpendEvent SpendEvent_other)] \<and>
   SpendingOutpoint sample_spend = Some \<lparr>Hash = zero_hash, Index = 0\<rparr> \<and>
   NewHash (Hash \<lparr>Hash = zero_hash, Index = 0\<rparr>) = Inr zero_hash \<and>
   NewHash (SpendingTxHash sample_spend) = Inr (replicate 32 17) \<and>
   sample_decodeTx (RawSpendingTx sample_spend) = Inr [1, 2, 3] \<and>
   spendWorker sample_decodeTx
     [Inr (SpendEvent SpendEvent_Reorg), Inr (SpendEvent SpendEvent_nil),
      Inr (SpendEvent SpendEvent_other), Inr (SpendEvent (SpendEvent_Spend (Some sample_spend)))] =
     \<lparr>outChan =
        [\<lparr>SpentOutPoint = \<lparr>wire_Hash = zero_hash, wire_Index = 0\<rparr>,
          SpenderTxHash = replicate 32 17,
          SpenderInputIndex = 2,
          SpendingTx = [1, 2, 3],
          ntfn_SpendingHeight = 700000\<rparr>],
      errChan = [], received = 4, status = Returned\<rparr>"
proof -
  have p: "list_all non_spend
     [Inr (SpendEvent SpendEvent_Reorg), Inr (SpendEvent SpendEvent_nil),
      Inr (SpendEvent SpendEvent_other)]"
    by (simp add: spend_ok_def)
  have o: "SpendingOutpoint sample_spend = Some \<lparr>Hash = zero_hash, Index = 0\<rparr>"
    by (simp add: sample_spend_def)
  have h1: "NewHash (Hash \<lparr>Hash = zero_hash, Index = 0\<rparr>) = Inr zero_hash"
    by (simp add: NewHash_zero_hash)
  have h2: "NewHash (SpendingTxHash sample_spend) = Inr (replicate 32 17)"
    by (simp add: sample_spend_def NewHash_def)
  have d: "sample_decodeTx (RawSpendingTx sample_spend) = Inr [1, 2, 3]"
    by (simp add: sample_decodeTx_def sample_spend_def)
  have c: "int32_of_uint32 (SpendingHeight sample_spend) = 700000"
    by (simp add: int32_of_uint32_id sample_spend_def)
  show ?thesis
    using spend_worker_first_spend [OF p, of sample_decodeTx sample_spend
        "\<lparr>Hash = zero_hash, Index = 0\<rparr>" zero_hash "replicate 32 17" "[1, 2, 3]" "[]"]
      p o h1 h2 d c
    by (simp add: sample_spend_def)
qed

text \<open>
  C9. \<open>processSpendDetail\<close> on a spend event panics exactly when the event's
  \<open>SpendingOutpoint\<close> is nil; with the outpoint present it returns, with an error or after
  the send. On a spend event without outpoint the worker neither writes to the error
  channel nor to the output channel: it ends in a panic.
\<close>

theorem spend_decoding_needs_outpoint:
  "(processSpendDetail decodeTx (Some d) w = Panic \<longleftrightarrow> SpendingOutpoint d = None) \<and>
   (SpendingOutpoint d = None \<and> status w = Running \<longrightarrow>
      spendIter decodeTx w (Inr (SpendEvent (SpendEvent_Spend (Some d)))) =
        w\<lparr>received := Suc (received w), status := Panicked\<rparr>) \<and>
   (SpendingOutpoint d = None \<longrightarrow>
      spendWorker decodeTx [Inr (SpendEvent (SpendEvent_Spend (Some d)))] =
        \<lparr>outChan = [], errChan = [], received = 1, status = Panicked\<rparr>)"
  by (auto simp: processSpendDetail_def spendIter_def spendWorker_def fresh_def
      split: option.splits sum.splits)

theorem spend_decoding_needs_outpoint_witness:
  "SpendingOutpoint (sample_spend\<lparr>SpendingOutpoint := None\<rparr>) = None \<and>
   status (fresh :: bytes SpendDetail worker) = Running \<and>
   processSpendDetail sample_decodeTx (Some (sample_spend\<lparr>SpendingOutpoint := None\<rparr>)) fresh =
     Panic \<and>
   spendIter sample_decodeTx fresh
     (Inr (SpendEvent (SpendEvent_Spend (Some (sample_spend\<lparr>SpendingOutpoint := None\<rparr>))))) =
     \<lparr>outChan = [], errChan = [], received = 1, status = Panicked\<rparr> \<and>
   spendWorker sample_decodeTx
     [Inr (SpendEvent (SpendEvent_Spend (Some (sample_spend\<lparr>SpendingOutpoint := None\<rparr>))))] =
     \<lparr>outChan = [], errChan = [], received = 1, status = Panicked\<rparr> \<and>
   processSpendDetail sample_decodeTx (Some sample_spend) (fresh :: bytes SpendDetail worker) \<noteq>
     Panic"
  using spend_decoding_needs_outpoint
    [of sample_decodeTx "sample_spend\<lparr>SpendingOutpoint := None\<rparr>" fresh]
    spend_decoding_needs_outpoint [of sample_decodeTx sample_spend fresh]
  by (simp add: fresh_def sample_spend_def)

subsection \<open>Variants outside the expected set\<close>

text \<open>
  C8, as amended. The confirmation worker answers a nil event and an event of an
  unexpected type with an explicit error each, the two errors differ, and it returns.
  The spend worker passes over every event that is not tagged as a spend (a reorg, a nil
  event, an event of another type): it writes no error and stays in its loop.
\<close>

theorem unexpected_variants:
  "(status w = Running \<and> errChan w = [] \<longrightarrow>
      confIter decodeTx w (Inr (ConfEvent ConfEvent_nil)) =
        w\<lparr>errChan := [Errorf ''conf event empty''],
          received := Suc (received w), status := Returned\<rparr> \<and>
      confIter decodeTx w (Inr (ConfEvent ConfEvent_other)) =
        w\<lparr>errChan := [Errorf ''conf event has unexpected type''],
          received := Suc (received w), status := Returned\<rparr>) \<and>
   Errorf ''conf event empty'' \<noteq> Errorf ''conf event has unexpected type'' \<and>
   (\<not> spend_ok ev \<longrightarrow>
      spendIter decodeTx' w' (Inr (SpendEvent ev)) = w'\<lparr>received := Suc (received w')\<rparr>) \<and>
   \<not> spend_ok SpendEvent_nil \<and> \<not> spend_ok SpendEvent_other \<and> \<not> spend_ok SpendEvent_Reorg"
  by (simp add: confIter_nil confIter_other spendIter_non_spend spend_ok_def)

theorem unexpected_variants_witness:
  "status (fresh :: bytes TxConfirmation worker) = Running \<and>
   errChan (fresh :: bytes TxConfirmation worker) = [] \<and>
   \<not> spend_ok SpendEvent_nil \<and>
   errChan (confIter sample_decodeTx fresh (Inr (ConfEvent ConfEvent_nil))) =
     [Errorf ''conf event empty''] \<and>
   errChan (confIter sample_decodeTx fresh (Inr (ConfEvent ConfEvent_other))) =
     [Errorf ''conf event has unexpected type''] \<and>
   errChan (spendIter sample_decodeTx fresh (Inr (SpendEvent SpendEvent_nil))) = [] \<and>
   status (spendIter sample_decodeTx fresh (Inr (SpendEvent SpendEvent_nil))) = Running"
  using unexpected_variants [of fresh sample_decodeTx SpendEvent_nil sample_decodeTx fresh]
  by (simp add: fresh_def)

text \<open>
  C8, as stated, fails on the spend worker: a nil event and an event of an unknown type
  leave the error channel empty and the worker in its loop.
\<close>

theorem spend_ignores_unset_variant_counterexample:
  "spendWorker sample_decodeTx [Inr (SpendEvent SpendEvent_nil)] =
     \<lparr>outChan = [], errChan = [], received = 1, status = Running\<rparr> \<and>
   spendWorker sample_decodeTx [Inr (SpendEvent SpendEvent_other)] =
     \<lparr>outChan = [], errChan = [], received = 1, status = Running\<rparr>"
  by (simp add: spendWorker_def spendIter_def fresh_def)

subsection \<open>The block epoch worker\<close>

lemma go_select_cancelled_no_reader:
  "ctx_done env \<Longrightarrow> \<not> receiver_ready env \<Longrightarrow> go_select env = Some CaseDone"
  by (simp add: go_select_def)

lemma go_select_reader:
  "not_cancelled env \<Longrightarrow> reader_takes env \<Longrightarrow> go_select env = Some CaseSend"
  by (auto simp: go_select_def not_cancelled_def reader_takes_def)

lemma go_select_not_cancelled:
  "not_cancelled env \<Longrightarrow> go_select env \<noteq> Some CaseDone"
  by (auto simp: go_select_def not_cancelled_def)

lemma epochIter_send:
  "go_select env = Some CaseSend \<Longrightarrow>
     epochIter w (Inr epoch, env) =
       w\<lparr>outChan := outChan w @ [int32_of_uint32 (Height epoch)], received := Suc (received w)\<rparr>"
  by (simp add: epochIter_def)

lemma epochIter_done:
  "go_select env = Some CaseDone \<Longrightarrow> status w = Running \<Longrightarrow>
     epochIter w (Inr epoch, env) = w\<lparr>received := Suc (received w), status := Returned\<rparr>"
  by (simp add: epochIter_def go_return_running)

lemma epochIter_blocked:
  "go_select env = None \<Longrightarrow>
     epochIter w (Inr epoch, env) = w\<lparr>received := Suc (received w), status := Blocked\<rparr>"
  by (simp add: epochIter_def)

lemma epochIter_error:
  "status w = Running \<Longrightarrow> errChan w = [] \<Longrightarrow>
     epochIter w (Inl err, env) =
       w\<lparr>errChan := [err], received := Suc (received w), status := Returned\<rparr>"
  by (simp add: epochIter_def send_err_empty go_return_running)

text \<open>
  C3, as amended. When a received height is ready and the \<open>select\<close> takes the
  cancellation case, the worker returns at once: the output channel and the error channel
  stay as they were (the value is dropped, nothing is reported), and whatever the stream
  delivers afterwards is not received. The \<open>select\<close> must take that case when the
  context is already cancelled and no receiver is waiting.
\<close>

theorem epoch_cancel_drops_value:
  assumes "status (epochWorker stream) = Running"
  shows "(ctx_done env \<and> \<not> receiver_ready env \<longrightarrow> go_select env = Some CaseDone) \<and>
    (go_select env = Some CaseDone \<longrightarrow>
       epochWorker (stream @ (Inr epoch, env) # rest) =
         (epochWorker stream)\<lparr>received := Suc (received (epochWorker stream)),
                               status := Returned\<rparr>)"
proof (intro conjI impI)
  assume "ctx_done env \<and> \<not> receiver_ready env"
  then show "go_select env = Some CaseDone" by (simp add: go_select_cancelled_no_reader)
next
  assume d: "go_select env = Some CaseDone"
  have "epochWorker (stream @ (Inr epoch, env) # rest) =
        for_loop epochIter (epochWorker stream) ((Inr epoch, env) # rest)"
    by (simp add: epochWorker_def for_loop_append)
  also have "\<dots> = epochIter (epochWorker stream) (Inr epoch, env)"
    by (rule for_loop_exit) (simp_all add: assms epochIter_done [OF d])
  finally show "epochWorker (stream @ (Inr epoch, env) # rest) =
         (epochWorker stream)\<lparr>received := Suc (received (epochWorker stream)),
                               status := Returned\<rparr>"
    by (simp add: epochIter_done [OF d assms])
qed

text \<open>
  A run of C3, as amended: after height 100 was delivered, height 101 arrives with the
  context cancelled and no receiver waiting; it is dropped, and height 102 is never received.
\<close>

theorem epoch_cancel_drops_value_witness:
  "status (epochWorker [(Inr \<lparr>epoch_Hash = [], Height = 100\<rparr>, reading)]) = Running \<and>
   ctx_done \<lparr>ctx_done = True, receiver_ready = False, pick = CaseSend, wakeup = None\<rparr> \<and>
   \<not> receiver_ready \<lparr>ctx_done = True, receiver_ready = False, pick = CaseSend, wakeup = None\<rparr> \<and>
   go_select \<lparr>ctx_done = True, receiver_ready = False, pick = CaseSend, wakeup = None\<rparr> =
     Some CaseDone \<and>
   epochWorker
     [(Inr \<lparr>epoch_Hash = [], Height = 100\<rparr>, reading),
      (Inr \<lparr>epoch_Hash = [], Height = 101\<rparr>,
       \<lparr>ctx_done = True, receiver_ready = False, pick = CaseSend, wakeup = None\<rparr>),
      (Inr \<lparr>epoch_Hash = [], Height = 102\<rparr>, reading)] =
     \<lparr>outChan = [100], errChan = [], received = 2, status = Returned\<rparr>"
proof -
  have w: "epochWorker [(Inr \<lparr>epoch_Hash = [], Height = 100\<rparr>, reading)] =
      \<lparr>outChan = [100], errChan = [], received = 1, status = Running\<rparr>"
    by (simp add: epochWorker_def epochIter_def go_select_def reading_def fresh_def
        int32_of_uint32_id)
  then have r: "status (epochWorker [(Inr \<lparr>epoch_Hash = [], Height = 100\<rparr>, reading)]) = Running"
    by simp
  show ?thesis
    using epoch_cancel_drops_value [OF r,
        of "\<lparr>ctx_done = True, receiver_ready = False, pick = CaseSend, wakeup = None\<rparr>"
           "\<lparr>epoch_Hash = [], Height = 101\<rparr>"
           "[(Inr \<lparr>epoch_Hash = [], Height = 102\<rparr>, reading)]"]
    by (simp add: w)
qed

text \<open>
  C3, as stated, fails: with the context already cancelled and a receiver waiting, both
  cases of the \<open>select\<close> can proceed, and when the runtime picks the send the value is
  delivered and the worker stays in its loop.
\<close>

theorem epoch_cancelled_value_delivered_counterexample:
  "ctx_done \<lparr>ctx_done = True, receiver_ready = True, pick = CaseSend, wakeup = None\<rparr> \<and>
   epochWorker
     [(Inr \<lparr>epoch_Hash = [], Height = 100\<rparr>,
       \<lparr>ctx_done = True, receiver_ready = True, pick = CaseSend, wakeup = None\<rparr>)] =
     \<lparr>outChan = [100], errChan = [], received = 1, status = Running\<rparr>"
  by (simp add: epochWorker_def epochIter_def go_select_def fresh_def int32_of_uint32_id)


lemma epoch_loop_delivers:
  "list_all (\<lambda>r. not_cancelled (snd r) \<and> reader_takes (snd r)) stream \<Longrightarrow>
   status w = Running \<Longrightarrow> errChan w = [] \<Longrightarrow>
     outChan (for_loop epochIter w stream) =
       outChan w @ map (\<lambda>epoch. int32_of_uint32 (Height epoch)) (epochs_received (map fst stream)) \<and>
     errChan (for_loop epochIter w stream) = first_error (map fst stream)"
proof (induction stream arbitrary: w)
  case Nil
  then show ?case by simp
next
  case (Cons r stream)
  obtain x env where r: "r = (x, env)" by (cases r)
  from Cons.prems r have sel: "go_select env = Some CaseSend"
    by (simp add: go_select_reader)
  from Cons.prems have rest:
    "list_all (\<lambda>r. not_cancelled (snd r) \<and> reader_takes (snd r)) stream" by simp
  show ?case
  proof (cases x)
    case (Inl err)
    then show ?thesis
      using Cons.prems r by (simp add: epochIter_error for_loop_stopped)
  next
    case (Inr epoch)
    let ?w = "w\<lparr>outChan := outChan w @ [int32_of_uint32 (Height epoch)],
                 received := Suc (received w)\<rparr>"
    have "status ?w = Running" "errChan ?w = []" using Cons.prems by simp_all
    from Cons.IH [OF rest this] show ?thesis
      using Cons.prems r Inr by (simp add: epochIter_send [OF sel])
  qed
qed

lemma epoch_loop_prefix:
  "list_all (\<lambda>r. not_cancelled (snd r)) stream \<Longrightarrow> status w = Running \<Longrightarrow>
     \<exists>n. outChan (for_loop epochIter w stream) =
       outChan w @ take n (map (\<lambda>epoch. int32_of_uint32 (Height epoch))
                             (epochs_received (map fst stream)))"
proof (induction stream arbitrary: w)
  case Nil
  then show ?case by simp
next
  case (Cons r stream)
  obtain x env where r: "r = (x, env)" by (cases r)
  from Cons.prems r have nc: "go_select env \<noteq> Some CaseDone"
    by (simp add: go_select_not_cancelled)
  from Cons.prems have rest: "list_all (\<lambda>r. not_cancelled (snd r)) stream" by simp
  show ?case
  proof (cases x)
    case (Inl err)
    have "status (epochIter w (Inl err, env)) \<noteq> Running"
      by (simp add: epochIter_def go_return_not_running)
    moreover have "outChan (epochIter w (Inl err, env)) = outChan w"
      by (simp add: epochIter_def outChan_go_return outChan_send_err)
    ultimately show ?thesis
      using Cons.prems r Inl by (simp add: for_loop_stopped)
  next
    case (Inr epoch)
    show ?thesis
    proof (cases "go_select env")
      case None
      then show ?thesis
        using Cons.prems r Inr by (simp add: epochIter_blocked for_loop_stopped)
    next
      case (Some c)
      with nc have sel: "go_select env = Some CaseSend" by (cases c) simp_all
      let ?w = "w\<lparr>outChan := outChan w @ [int32_of_uint32 (Height epoch)],
                   received := Suc (received w)\<rparr>"
      have "status ?w = Running" using Cons.prems by simp
      from Cons.IH [OF rest this] obtain n where
        n: "outChan (for_loop epochIter ?w stream) =
            outChan ?w @ take n (map (\<lambda>epoch. int32_of_uint32 (Height epoch))
                                   (epochs_received (map fst stream)))" ..
      have "outChan (for_loop epochIter w (r # stream)) =
            outChan w @ take (Suc n) (map (\<lambda>epoch. int32_of_uint32 (Height epoch))
                                   (epochs_received (map fst (r # stream))))"
        using Cons.prems r Inr n by (simp add: epochIter_send [OF sel])
      then show ?thesis ..
    qed
  qed
qed

lemma sint_delivered_heights:
  "list_all (\<lambda>epoch. uint (Height epoch) < 2 ^ 31) epochs \<Longrightarrow>
     map sint (map (\<lambda>epoch. int32_of_uint32 (Height epoch)) epochs) =
       map (\<lambda>epoch. uint (Height epoch)) epochs"
  by (induction epochs) (simp_all add: sint_int32_of_uint32)

text \<open>
  C7. In a block epoch subscription that is never cancelled, the values on the output
  channel are heights received from the stream, in the order received, with none added
  and none skipped; when the caller takes every value offered, they are exactly the heights
  that the stream delivered before its first error, and the error channel holds that
  error and nothing else (nothing when the stream delivered no error). A delivered value
  is the received \<open>uint32\<close> height converted to \<open>int32\<close>; for heights below \<open>2^31\<close> it
  is the same number.
\<close>

theorem epoch_values_in_order:
  assumes "list_all (\<lambda>r. not_cancelled (snd r)) stream"
  shows "(\<exists>n. outChan (epochWorker stream) =
            take n (map (\<lambda>epoch. int32_of_uint32 (Height epoch))
                      (epochs_received (map fst stream)))) \<and>
    (list_all (\<lambda>r. reader_takes (snd r)) stream \<longrightarrow>
       outChan (epochWorker stream) =
         map (\<lambda>epoch. int32_of_uint32 (Height epoch)) (epochs_received (map fst stream)) \<and>
       errChan (epochWorker stream) = first_error (map fst stream) \<and>
       (list_all (\<lambda>epoch. uint (Height epoch) < 2 ^ 31) (epochs_received (map fst stream)) \<longrightarrow>
          map sint (outChan (epochWorker stream)) =
            map (\<lambda>epoch. uint (Height epoch)) (epochs_received (map fst stream))))"
proof (intro conjI impI)
  show "\<exists>n. outChan (epochWorker stream) =
            take n (map (\<lambda>epoch. int32_of_uint32 (Height epoch))
                      (epochs_received (map fst stream)))"
    using epoch_loop_prefix [OF assms, of fresh]
    by (simp add: epochWorker_def fresh_def)
next
  assume "list_all (\<lambda>r. reader_takes (snd r)) stream"
  with assms have "list_all (\<lambda>r. not_cancelled (snd r) \<and> reader_takes (snd r)) stream"
    by (simp add: list_all_iff)
  from epoch_loop_delivers [OF this, of fresh]
  show out: "outChan (epochWorker stream) =
         map (\<lambda>epoch. int32_of_uint32 (Height epoch)) (epochs_received (map fst stream))"
    and "errChan (epochWorker stream) = first_error (map fst stream)"
    by (simp_all add: epochWorker_def fresh_def)
  assume "list_all (\<lambda>epoch. uint (Height epoch) < 2 ^ 31) (epochs_received (map fst stream))"
  then show "map sint (outChan (epochWorker stream)) =
            map (\<lambda>epoch. uint (Height epoch)) (epochs_received (map fst stream))"
    by (simp only: out sint_delivered_heights)
qed

text \<open>The scenario of C7: heights 100, 101, 102 without cancellation.\<close>

theorem epoch_values_in_order_witness:
  "list_all (\<lambda>r. not_cancelled (snd r))
     [(Inr \<lparr>epoch_Hash = [], Height = 100\<rparr>, reading),
      (Inr \<lparr>epoch_Hash = [], Height = 101\<rparr>, reading),
      (Inr \<lparr>epoch_Hash = [], Height = 102\<rparr>, reading)] \<and>
   list_all (\<lambda>r. reader_takes (snd r))
     [(Inr \<lparr>epoch_Hash = [], Height = 100\<rparr>, reading),
      (Inr \<lparr>epoch_Hash = [], Height = 101\<rparr>, reading),
      (Inr \<lparr>epoch_Hash = [], Height = 102\<rparr>, reading)] \<and>
   list_all (\<lambda>epoch. uint (Height epoch) < 2 ^ 31)
     (epochs_received (map fst
       [(Inr \<lparr>epoch_Hash = [], Height = 100\<rparr>, reading),
        (Inr \<lparr>epoch_Hash = [], Height = 101\<rparr>, reading),
        (Inr \<lparr>epoch_Hash = [], Height = 102\<rparr>, reading)])) \<and>
   outChan (epochWorker
     [(Inr \<lparr>epoch_Hash = [], Height = 100\<rparr>, reading),
      (Inr \<lparr>epoch_Hash = [], Height = 101\<rparr>, reading),
      (Inr \<lparr>epoch_Hash = [], Height = 102\<rparr>, reading)]) = [100, 101, 102] \<and>
   map sint (outChan (epochWorker
     [(Inr \<lparr>epoch_Hash = [], Height = 100\<rparr>, reading),
      (Inr \<lparr>epoch_Hash = [], Height = 101\<rparr>, reading),
      (Inr \<lparr>epoch_Hash = [], Height = 102\<rparr>, reading)])) = [100, 101, 102] \<and>
   errChan (epochWorker
     [(Inr \<lparr>epoch_Hash = [], Height = 100\<rparr>, reading),
      (Inr \<lparr>epoch_Hash = [], Height = 101\<rparr>, reading),
      (Inr \<lparr>epoch_Hash = [], Height = 102\<rparr>, reading)]) = []"
proof -
  have nc: "list_all (\<lambda>r. not_cancelled (snd r))
     [(Inr \<lparr>epoch_Hash = [], Height = 100\<rparr>, reading),
      (Inr \<lparr>epoch_Hash = [], Height = 101\<rparr>, reading),
      (Inr \<lparr>epoch_Hash = [], Height = 102\<rparr>, reading)]"
    by (simp add: not_cancelled_def reading_def)
  have rt: "list_all (\<lambda>r. reader_takes (snd r))
     [(Inr \<lparr>epoch_Hash = [], Height = 100\<rparr>, reading),
      (Inr \<lparr>epoch_Hash = [], Height = 101\<rparr>, reading),
      (Inr \<lparr>epoch_Hash = [], Height = 102\<rparr>, reading)]"
    by (simp add: reader_takes_def reading_def)
  show ?thesis
    using epoch_values_in_order [OF nc] nc rt
    by (simp add: int32_of_uint32_id)
qed

subsection \<open>Failures are terminal\<close>








































subsection \<open>Registration\<close>

text \<open>
  C4. Each of the three registrations, when the stream establishment fails with an error,
  returns nil for both channels together with that error and leaves the client as it was
  (no goroutine is started, the counter is unchanged); when the establishment succeeds,
  it returns two channels that are not nil and a nil error, and has started one worker.
\<close>

theorem registration_results:
  "(spendClient (spendRequest outpoint pkScript heightHint) = Some err \<longrightarrow>
      RegisterSpendNtfn spendClient s outpoint pkScript heightHint = ((None, None, Some err), s)) \<and>
   (spendClient (spendRequest outpoint pkScript heightHint) = None \<longrightarrow>
      (\<exists>spendChan errChan.
         fst (RegisterSpendNtfn spendClient s outpoint pkScript heightHint) =
           (Some spendChan, Some errChan, None)) \<and>
      snd (RegisterSpendNtfn spendClient s outpoint pkScript heightHint) =
        spawn s (SpendRoutine fresh)) \<and>
   (confClient (confRequest txid pkScript numConfs heightHint) = Some err \<longrightarrow>
      RegisterConfirmationsNtfn confClient s txid pkScript numConfs heightHint =
        ((None, None, Some err), s)) \<and>
   (confClient (confRequest txid pkScript numConfs heightHint) = None \<longrightarrow>
      (\<exists>confChan errChan.
         fst (RegisterConfirmationsNtfn confClient s txid pkScript numConfs heightHint) =
           (Some confChan, Some errChan, None)) \<and>
      snd (RegisterConfirmationsNtfn confClient s txid pkScript numConfs heightHint) =
        spawn s (ConfRoutine fresh)) \<and>
   (epochClient () = Some err \<longrightarrow>
      RegisterBlockEpochNtfn epochClient s = ((None, None, Some err), s)) \<and>
   (epochClient () = None \<longrightarrow>
      (\<exists>blockEpochChan blockErrorChan.
         fst (RegisterBlockEpochNtfn epochClient s) =
           (Some blockEpochChan, Some blockErrorChan, None)) \<and>
      snd (RegisterBlockEpochNtfn epochClient s) = spawn s (EpochRoutine fresh))"
  by (simp add: RegisterSpendNtfn_def RegisterConfirmationsNtfn_def RegisterBlockEpochNtfn_def)

text \<open>
  Runs of C4 on a new client: the three registrations with a stream establishment that
  fails, and the three with one that succeeds.
\<close>

theorem registration_results_witness:
  "(\<lambda>_. Some (ExternalError ''unavailable'')) (spendRequest None [] 0) =
     Some (ExternalError ''unavailable'') \<and>
   (\<lambda>_. None :: error option) (spendRequest None [] 0) = None \<and>
   RegisterSpendNtfn (\<lambda>_. Some (ExternalError ''unavailable''))
     (newChainNotifierClient :: bytes chainNotifierClient) None [] 0 =
     ((None, None, Some (ExternalError ''unavailable'')), newChainNotifierClient) \<and>
   RegisterConfirmationsNtfn (\<lambda>_. Some (ExternalError ''unavailable''))
     (newChainNotifierClient :: bytes chainNotifierClient) None [] 1 0 =
     ((None, None, Some (ExternalError ''unavailable'')), newChainNotifierClient) \<and>
   RegisterBlockEpochNtfn (\<lambda>_. Some (ExternalError ''unavailable''))
     (newChainNotifierClient :: bytes chainNotifierClient) =
     ((None, None, Some (ExternalError ''unavailable'')), newChainNotifierClient) \<and>
   RegisterSpendNtfn (\<lambda>_. None) (newChainNotifierClient :: bytes chainNotifierClient) None [] 0 =
     ((Some (MakeChan 1), Some (MakeChan 1), None),
      \<lparr>wg = 1, goroutines = [SpendRoutine fresh]\<rparr>) \<and>
   RegisterConfirmationsNtfn (\<lambda>_. None)
     (newChainNotifierClient :: bytes chainNotifierClient) None [] 1 0 =
     ((Some (MakeChan 1), Some (MakeChan 1), None),
      \<lparr>wg = 1, goroutines = [ConfRoutine fresh]\<rparr>) \<and>
   RegisterBlockEpochNtfn (\<lambda>_. None) (newChainNotifierClient :: bytes chainNotifierClient) =
     ((Some (MakeChan 0), Some (MakeChan 1), None),
      \<lparr>wg = 1, goroutines = [EpochRoutine fresh]\<rparr>)"
proof -
  have ok: "RegisterSpendNtfn (\<lambda>_. None)
      (newChainNotifierClient :: bytes chainNotifierClient) None [] 0 =
     ((Some (MakeChan 1), Some (MakeChan 1), None),
      \<lparr>wg = 1, goroutines = [SpendRoutine fresh]\<rparr>)"
    "RegisterConfirmationsNtfn (\<lambda>_. None)
      (newChainNotifierClient :: bytes chainNotifierClient) None [] 1 0 =
     ((Some (MakeChan 1), Some (MakeChan 1), None),
      \<lparr>wg = 1, goroutines = [ConfRoutine fresh]\<rparr>)"
    "RegisterBlockEpochNtfn (\<lambda>_. None) (newChainNotifierClient :: bytes chainNotifierClient) =
     ((Some (MakeChan 0), Some (MakeChan 1), None),
      \<lparr>wg = 1, goroutines = [EpochRoutine fresh]\<rparr>)"
    using registration_results [of "\<lambda>_. None" None "[]" 0
        "ExternalError ''unavailable''" "newChainNotifierClient :: bytes chainNotifierClient"
        "\<lambda>_. None" None 1 "\<lambda>_. None"]
    by (simp_all add: RegisterSpendNtfn_def RegisterConfirmationsNtfn_def
        RegisterBlockEpochNtfn_def spawn_def newChainNotifierClient_def)
  show ?thesis
    using registration_results [of "\<lambda>_. Some (ExternalError ''unavailable'')" None "[]" 0
        "ExternalError ''unavailable''" "newChainNotifierClient :: bytes chainNotifierClient"
        "\<lambda>_. Some (ExternalError ''unavailable'')" None 1
        "\<lambda>_. Some (ExternalError ''unavailable'')"]
      ok
    by simp
qed

subsection \<open>Shutdown\<close>

lemma live_append: "live (gs @ [g]) = live gs @ (if exited (routine_status g) then [] else [g])"
  by (simp add: live_def)

lemma length_live_update:
  "i < length gs \<Longrightarrow> \<not> exited (routine_status (gs ! i)) \<Longrightarrow>
     int (length (live (gs[i := g]))) =
       int (length (live gs)) - (if exited (routine_status g) then 1 else 0)"
proof (induction gs arbitrary: i)
  case Nil
  then show ?case by simp
next
  case (Cons a gs)
  show ?case
  proof (cases i)
    case 0
    with Cons.prems show ?thesis by (simp add: live_def)
  next
    case (Suc j)
    with Cons.prems have "j < length gs" "\<not> exited (routine_status (gs ! j))" by simp_all
    from Cons.IH [OF this] Suc show ?thesis by (auto simp: live_def split: if_splits)
  qed
qed

lemma wg_spawn:
  "wg s = int (length (live (goroutines s))) \<Longrightarrow> \<not> exited (routine_status g) \<Longrightarrow>
     wg (spawn s g) = int (length (live (goroutines (spawn s g))))"
  by (simp add: spawn_def live_append)

lemma fresh_not_exited:
  "\<not> exited (routine_status (SpendRoutine fresh))"
  "\<not> exited (routine_status (ConfRoutine fresh))"
  "\<not> exited (routine_status (EpochRoutine fresh))"
  by (simp_all add: exited_def fresh_def)

lemma wg_apply_action:
  assumes "wg s = int (length (live (goroutines s)))"
  shows "wg (apply_action decodeTx s a) =
         int (length (live (goroutines (apply_action decodeTx s a))))"
proof (cases a)
  case (CallRegisterSpendNtfn res outpoint pkScript heightHint)
  then show ?thesis
    using assms
    by (cases res)
       (simp_all add: RegisterSpendNtfn_def wg_spawn [OF assms fresh_not_exited(1)])
next
  case (CallRegisterConfirmationsNtfn res txid pkScript numConfs heightHint)
  then show ?thesis
    using assms
    by (cases res)
       (simp_all add: RegisterConfirmationsNtfn_def wg_spawn [OF assms fresh_not_exited(2)])
next
  case (CallRegisterBlockEpochNtfn res)
  then show ?thesis
    using assms
    by (cases res)
       (simp_all add: RegisterBlockEpochNtfn_def wg_spawn [OF assms fresh_not_exited(3)])
next
  case (Deliver i d)
  show ?thesis
  proof (cases "i < length (goroutines s) \<and> routine_status (goroutines s ! i) = Running")
    case False
    with Deliver assms show ?thesis by auto
  next
    case True
    then have "\<not> exited (routine_status (goroutines s ! i))" by (simp add: exited_def)
    from length_live_update [OF _ this, of "routine_iter decodeTx (goroutines s ! i) d"] True
    show ?thesis
      using Deliver assms by (simp add: deferred_Done_def Let_def)
  qed
qed

lemma wg_run:
  "wg s = int (length (live (goroutines s))) \<Longrightarrow>
     wg (run decodeTx s as) = int (length (live (goroutines (run decodeTx s as))))"
  by (induction as arbitrary: s) (simp_all add: wg_apply_action)

lemma live_empty: "live gs = [] \<Longrightarrow> \<forall>g\<in>set gs. exited (routine_status g)"
  by (auto simp: live_def filter_empty_conv)

text \<open>
  C6. A registration that starts a worker adds one to the counter and adds the goroutine
  in its initial state, before it has received anything. In every state that the client
  reaches by registrations and loop iterations of its goroutines, the counter equals the
  number of goroutines that have not exited: each goroutine was counted when it was
  started and was discounted on the iteration that made it exit, whichever exit that
  was. Hence, when \<open>WaitForFinished\<close> can return, every goroutine started so far has exited.
\<close>

theorem wait_for_finished_waits_for_all:
  "wg (spawn s g) = wg s + 1 \<and> goroutines (spawn s g) = goroutines s @ [g] \<and>
   wg (run decodeTx newChainNotifierClient as) =
     int (length (live (goroutines (run decodeTx newChainNotifierClient as)))) \<and>
   (WaitForFinished_returns (run decodeTx newChainNotifierClient as) \<longrightarrow>
      (\<forall>g\<in>set (goroutines (run decodeTx newChainNotifierClient as)).
         exited (routine_status g)))"
proof -
  have inv: "wg (run decodeTx newChainNotifierClient as) =
     int (length (live (goroutines (run decodeTx newChainNotifierClient as))))"
    by (rule wg_run) (simp add: newChainNotifierClient_def live_def)
  have "WaitForFinished_returns (run decodeTx newChainNotifierClient as) \<longrightarrow>
      (\<forall>g\<in>set (goroutines (run decodeTx newChainNotifierClient as)).
         exited (routine_status g))"
    using inv live_empty [of "goroutines (run decodeTx newChainNotifierClient as)"]
    by (simp add: WaitForFinished_returns_def)
  with inv show ?thesis by (simp add: spawn_def)
qed


text \<open>
  A run of C6 on a new client: a spend registration and a block epoch registration start
  one worker each, a confirmation registration fails; the spend stream then delivers an
  error and the block epoch worker observes the cancellation. Before the second worker
  has exited \<open>WaitForFinished\<close> cannot return; afterwards it can, and both have exited.
\<close>

theorem wait_for_finished_waits_for_all_witness:
  "\<not> WaitForFinished_returns (run sample_decodeTx newChainNotifierClient
     [CallRegisterSpendNtfn None None [] 0,
      CallRegisterConfirmationsNtfn (Some (ExternalError ''unavailable'')) None [] 1 0,
      CallRegisterBlockEpochNtfn None,
      Deliver 0 (ToSpend (Inl (ExternalError ''EOF'')))]) \<and>
   WaitForFinished_returns (run sample_decodeTx newChainNotifierClient
     [CallRegisterSpendNtfn None None [] 0,
      CallRegisterConfirmationsNtfn (Some (ExternalError ''unavailable'')) None [] 1 0,
      CallRegisterBlockEpochNtfn None,
      Deliver 0 (ToSpend (Inl (ExternalError ''EOF''))),
      Deliver 1 (ToEpoch (Inr \<lparr>epoch_Hash = [], Height = 100\<rparr>,
        \<lparr>ctx_done = True, receiver_ready = False, pick = CaseSend, wakeup = None\<rparr>))]) \<and>
   map routine_status (goroutines (run sample_decodeTx newChainNotifierClient
     [CallRegisterSpendNtfn None None [] 0,
      CallRegisterConfirmationsNtfn (Some (ExternalError ''unavailable'')) None [] 1 0,
      CallRegisterBlockEpochNtfn None,
      Deliver 0 (ToSpend (Inl (ExternalError ''EOF''))),
      Deliver 1 (ToEpoch (Inr \<lparr>epoch_Hash = [], Height = 100\<rparr>,
        \<lparr>ctx_done = True, receiver_ready = False, pick = CaseSend, wakeup = None\<rparr>))])) =
     [Returned, Returned]"
proof -
  have w4: "\<not> WaitForFinished_returns (run sample_decodeTx newChainNotifierClient
     [CallRegisterSpendNtfn None None [] 0,
      CallRegisterConfirmationsNtfn (Some (ExternalError ''unavailable'')) None [] 1 0,
      CallRegisterBlockEpochNtfn None,
      Deliver 0 (ToSpend (Inl (ExternalError ''EOF'')))])"
    by code_simp
  have w5: "WaitForFinished_returns (run sample_decodeTx newChainNotifierClient
     [CallRegisterSpendNtfn None None [] 0,
      CallRegisterConfirmationsNtfn (Some (ExternalError ''unavailable'')) None [] 1 0,
      CallRegisterBlockEpochNtfn None,
      Deliver 0 (ToSpend (Inl (ExternalError ''EOF''))),
      Deliver 1 (ToEpoch (Inr \<lparr>epoch_Hash = [], Height = 100\<rparr>,
        \<lparr>ctx_done = True, receiver_ready = False, pick = CaseSend, wakeup = None\<rparr>))])"
    by code_simp
  have s5: "map routine_status (goroutines (run sample_decodeTx newChainNotifierClient
     [CallRegisterSpendNtfn None None [] 0,
      CallRegisterConfirmationsNtfn (Some (ExternalError ''unavailable'')) None [] 1 0,
      CallRegisterBlockEpochNtfn None,
      Deliver 0 (ToSpend (Inl (ExternalError ''EOF''))),
      Deliver 1 (ToEpoch (Inr \<lparr>epoch_Hash = [], Height = 100\<rparr>,
        \<lparr>ctx_done = True, receiver_ready = False, pick = CaseSend, wakeup = None\<rparr>))])) =
     [Returned, Returned]"
    by code_simp
  show ?thesis
    using wait_for_finished_waits_for_all [of newChainNotifierClient "EpochRoutine fresh"
        sample_decodeTx
        "[CallRegisterSpendNtfn None None [] 0,
          CallRegisterConfirmationsNtfn (Some (ExternalError ''unavailable'')) None [] 1 0,
          CallRegisterBlockEpochNtfn None,
          Deliver 0 (ToSpend (Inl (ExternalError ''EOF''))),
          Deliver 1 (ToEpoch (Inr \<lparr>epoch_Hash = [], Height = 100\<rparr>,
            \<lparr>ctx_done = True, receiver_ready = False, pick = CaseSend, wakeup = None\<rparr>))]"]
      w4 w5 s5
    by blast
qed

subsection \<open>Heights and counts\<close>

lemma processSpendDetail_height:
  "processSpendDetail decodeTx (Some d) w = Value (None, w') \<Longrightarrow> outChan w = [] \<Longrightarrow>
     map ntfn_SpendingHeight (outChan w') = [int32_of_uint32 (SpendingHeight d)]"
  by (auto simp: processSpendDetail_def send_out_empty split: option.splits sum.splits)

text \<open>
  C10. The \<open>int32\<close> height hint and number of confirmations of the caller go into the
  request as \<open>uint32\<close> with the same 32 bits, that is, as their value modulo \<open>2^32\<close>: a
  negative height hint is sent as a value of at least \<open>2^31\<close>. The \<open>uint32\<close> height of a
  received epoch and the \<open>uint32\<close> spending height of a spend event are delivered as
  \<open>int32\<close> with the same 32 bits: a height of at least \<open>2^31\<close> is delivered as the negative
  number that is \<open>2^32\<close> less.
\<close>

theorem heights_are_reinterpreted:
  "uint (spend_HeightHint (spendRequest outpoint pkScript heightHint)) =
     sint heightHint mod 2 ^ 32 \<and>
   uint (conf_HeightHint (confRequest txid pkScript numConfs heightHint)) =
     sint heightHint mod 2 ^ 32 \<and>
   uint (NumConfs (confRequest txid pkScript numConfs heightHint)) = sint numConfs mod 2 ^ 32 \<and>
   (sint heightHint < 0 \<longrightarrow>
      2 ^ 31 \<le> uint (spend_HeightHint (spendRequest outpoint pkScript heightHint)) \<and>
      2 ^ 31 \<le> uint (conf_HeightHint (confRequest txid pkScript numConfs heightHint))) \<and>
   (go_select env = Some CaseSend \<longrightarrow>
      outChan (epochIter w (Inr epoch, env)) = outChan w @ [int32_of_uint32 (Height epoch)]) \<and>
   (processSpendDetail decodeTx (Some d) v = Value (None, v') \<and> outChan v = [] \<longrightarrow>
      map ntfn_SpendingHeight (outChan v') = [int32_of_uint32 (SpendingHeight d)]) \<and>
   sint (int32_of_uint32 h) = (if uint h < 2 ^ 31 then uint h else uint h - 2 ^ 32) \<and>
   (2 ^ 31 \<le> uint h \<longrightarrow> sint (int32_of_uint32 h) < 0)"
proof (intro conjI impI)
  show "uint (spend_HeightHint (spendRequest outpoint pkScript heightHint)) =
     sint heightHint mod 2 ^ 32"
    by (simp add: spendRequest_def uint_uint32_of_int32)
  show "uint (conf_HeightHint (confRequest txid pkScript numConfs heightHint)) =
     sint heightHint mod 2 ^ 32"
    by (simp add: confRequest_def uint_uint32_of_int32)
  show "uint (NumConfs (confRequest txid pkScript numConfs heightHint)) = sint numConfs mod 2 ^ 32"
    by (simp add: confRequest_def uint_uint32_of_int32)
  show "sint (int32_of_uint32 h) = (if uint h < 2 ^ 31 then uint h else uint h - 2 ^ 32)"
    by (rule sint_int32_of_uint32)
next
  assume "sint heightHint < 0"
  then have "2 ^ 31 \<le> uint (uint32_of_int32 heightHint)" by (rule negative_hint)
  then show "2 ^ 31 \<le> uint (spend_HeightHint (spendRequest outpoint pkScript heightHint))"
    and "2 ^ 31 \<le> uint (conf_HeightHint (confRequest txid pkScript numConfs heightHint))"
    by (simp_all add: spendRequest_def confRequest_def)
next
  assume "go_select env = Some CaseSend"
  then show "outChan (epochIter w (Inr epoch, env)) =
      outChan w @ [int32_of_uint32 (Height epoch)]"
    by (simp add: epochIter_send)
next
  assume "processSpendDetail decodeTx (Some d) v = Value (None, v') \<and> outChan v = []"
  then have "processSpendDetail decodeTx (Some d) v = Value (None, v')" and "outChan v = []"
    by simp_all
  then show "map ntfn_SpendingHeight (outChan v') = [int32_of_uint32 (SpendingHeight d)]"
    by (rule processSpendDetail_height)
next
  assume "2 ^ 31 \<le> uint h"
  then show "sint (int32_of_uint32 h) < 0" by (rule high_height)
qed

text \<open>
  Values of C10: the height hint \<open>-1\<close> is sent as \<open>4294967295\<close>, and a received epoch
  and a spend event of height \<open>2^31\<close> are delivered with the height \<open>-2^31\<close>.
\<close>

theorem heights_are_reinterpreted_witness:
  "sint (- 1 :: int32) < 0 \<and>
   uint (spend_HeightHint (spendRequest None [] (- 1))) = 4294967295 \<and>
   uint (conf_HeightHint (confRequest None [] (- 1) (- 1))) = 4294967295 \<and>
   uint (NumConfs (confRequest None [] (- 1) (- 1))) = 4294967295 \<and>
   go_select reading = Some CaseSend \<and>
   2 ^ 31 \<le> uint (2147483648 :: uint32) \<and>
   outChan (epochIter fresh (Inr \<lparr>epoch_Hash = [], Height = 2147483648\<rparr>, reading)) =
     [int32_of_uint32 2147483648] \<and>
   sint (int32_of_uint32 2147483648) = - 2147483648 \<and>
   outChan (fresh :: bytes SpendDetail worker) = [] \<and>
   processSpendDetail sample_decodeTx (Some (sample_spend\<lparr>SpendingHeight := 2147483648\<rparr>)) fresh =
     Value (None, fresh\<lparr>outChan :=
       [\<lparr>SpentOutPoint = \<lparr>wire_Hash = zero_hash, wire_Index = 0\<rparr>,
         SpenderTxHash = replicate 32 17,
         SpenderInputIndex = 2,
         SpendingTx = [1, 2, 3],
         ntfn_SpendingHeight = int32_of_uint32 2147483648\<rparr>]\<rparr>)"
proof -
  have n: "sint (- 1 :: int32) < 0" by simp
  have g: "go_select reading = Some CaseSend" by (simp add: go_select_def reading_def)
  have u: "uint (2147483648 :: uint32) = 2147483648" by simp
  have p: "processSpendDetail sample_decodeTx
      (Some (sample_spend\<lparr>SpendingHeight := 2147483648\<rparr>)) fresh =
     Value (None, fresh\<lparr>outChan :=
       [\<lparr>SpentOutPoint = \<lparr>wire_Hash = zero_hash, wire_Index = 0\<rparr>,
         SpenderTxHash = replicate 32 17,
         SpenderInputIndex = 2,
         SpendingTx = [1, 2, 3],
         ntfn_SpendingHeight = int32_of_uint32 2147483648\<rparr>]\<rparr>)"
    by (simp add: processSpendDetail_def sample_spend_def NewHash_def zero_hash_def
        sample_decodeTx_def send_out_empty fresh_def)
  show ?thesis
    using heights_are_reinterpreted [of None "[]" "- 1" None "- 1" reading
        "fresh :: int32 worker" "\<lparr>epoch_Hash = [], Height = 2147483648\<rparr>"
        sample_decodeTx "sample_spend\<lparr>SpendingHeight := 2147483648\<rparr>" fresh
        "fresh\<lparr>outChan :=
           [\<lparr>SpentOutPoint = \<lparr>wire_Hash = zero_hash, wire_Index = 0\<rparr>,
             SpenderTxHash = replicate 32 17,
             SpenderInputIndex = 2,
             SpendingTx = [1, 2, 3],
             ntfn_SpendingHeight = int32_of_uint32 2147483648\<rparr>]\<rparr>" 2147483648]
      n g u p
    by (simp add: fresh_def)
qed

end
